theory Spec2Isabelle
  imports Main "HOL-Library.Sublist"
begin

section \<open>Text, paths and exceptions\<close>

text \<open>
  A Python \<open>str\<close> is a sequence of Unicode code points, so it is modelled as a list of
  code point numbers. ASCII text is written with \<open>asc\<close>; the other characters of
  \<^verbatim>\<open>limpiarfondo.py\<close> are given by their code point. \<open>bytes\<close> objects are lists of
  byte values; only their emptiness and their length are observed by the program.
\<close>

type_synonym ustr = "nat list"
type_synonym bytes = "nat list"

definition asc :: "string \<Rightarrow> ustr" where
  "asc s = map of_char s"

definition CHECK :: nat where \<comment> \<open>U+2705, the white heavy check mark\<close>
  "CHECK = 9989"

definition CROSS :: nat where \<comment> \<open>U+274C, the cross mark\<close>
  "CROSS = 10060"

definition ARROW :: nat where \<comment> \<open>U+2192, the rightwards arrow\<close>
  "ARROW = 8594"

definition NL :: nat where \<comment> \<open>the line feed\<close>
  "NL = 10"

text \<open>\<open>needle in haystack\<close> on strings: the needle occurs as a contiguous slice.\<close>

definition py_in :: "ustr \<Rightarrow> ustr \<Rightarrow> bool" where
  "py_in needle haystack = sublist needle haystack"

text \<open>\<open>str(n)\<close> for a non-negative integer: its decimal digits.\<close>

fun digits :: "nat \<Rightarrow> nat list" where
  "digits n = (if n < 10 then [n] else digits (n div 10) @ [n mod 10])"

declare digits.simps [simp del]

definition str_nat :: "nat \<Rightarrow> ustr" where
  "str_nat n = map (\<lambda>d. 48 + d) (digits n)"

text \<open>
  \<open>str.lower()\<close>. The letters \<open>A\<close> to \<open>Z\<close> go to \<open>a\<close> to \<open>z\<close>; every other code
  point is left as it is. Python lowers non-ASCII letters too, but no code point outside
  \<open>A\<close>..\<open>Z\<close> is lowered to one of the letters of \<open>VALID_EXTENSIONS\<close>, so membership
  in that tuple is decided as in Python.
\<close>

definition lower_cp :: "nat \<Rightarrow> nat" where
  "lower_cp c = (if 65 \<le> c \<and> c \<le> 90 then c + 32 else c)"

definition lower :: "ustr \<Rightarrow> ustr" where
  "lower s = map lower_cp s"

text \<open>
  \<open>s.rfind(c)\<close> for a single character, as \<open>None\<close> where Python returns \<open>-1\<close>.
\<close>

fun rfind :: "ustr \<Rightarrow> nat \<Rightarrow> nat option" where
  "rfind [] c = None"
| "rfind (x # xs) c =
     (case rfind xs c of
        Some i \<Rightarrow> Some (Suc i)
      | None \<Rightarrow> if x = c then Some 0 else None)"

definition SEP :: nat where \<comment> \<open>the slash, \<open>os.sep\<close> of \<open>posixpath\<close>\<close>
  "SEP = 47"

definition DOT :: nat where
  "DOT = 46"

text \<open>
  \<open>os.path.splitext\<close> (\<open>genericpath._splitext\<close> with the POSIX separator): the
  extension starts at the last dot of the last path component, unless that component
  has only dots before it.
\<close>

definition splitext :: "ustr \<Rightarrow> ustr \<times> ustr" where
  "splitext p =
     (let filenameIndex = (case rfind p SEP of None \<Rightarrow> 0 | Some s \<Rightarrow> Suc s)
      in case rfind p DOT of
           None \<Rightarrow> (p, [])
         | Some dotIndex \<Rightarrow>
             if filenameIndex \<le> dotIndex \<and>
                (\<exists>c \<in> set (drop filenameIndex (take dotIndex p)). c \<noteq> DOT)
             then (take dotIndex p, drop dotIndex p)
             else (p, []))"

text \<open>
  \<open>os.path.join(a, b)\<close> of \<open>posixpath\<close> for two arguments.
\<close>

definition os_path_join :: "ustr \<Rightarrow> ustr \<Rightarrow> ustr" where
  "os_path_join a b =
     (if b \<noteq> [] \<and> hd b = SEP then b
      else if a = [] \<or> last a = SEP then a @ b
      else a @ [SEP] @ b)"

text \<open>
  \<open>Path(filename).stem\<close> of \<open>pathlib\<close> (POSIX flavour). The path is split at the
  slashes, empty components and \<open>.\<close> components are dropped, and the name is the last
  component left (the empty string when there is none). The stem is the name up to its
  last dot, when that dot is neither the first nor the last character of the name (the
  rule of Python up to 3.13; later versions differ only for names that end in a dot, which
  the extension filter of main never selects).
\<close>

fun split_sep :: "ustr \<Rightarrow> ustr list" where
  "split_sep [] = [[]]"
| "split_sep (x # xs) =
     (if x = SEP then [] # split_sep xs
      else (case split_sep xs of
              [] \<Rightarrow> [[x]]
            | c # cs \<Rightarrow> (x # c) # cs))"

definition path_name :: "ustr \<Rightarrow> ustr" where
  "path_name p =
     (case rev (filter (\<lambda>c. c \<noteq> [] \<and> c \<noteq> [DOT]) (split_sep p)) of
        [] \<Rightarrow> []
      | c # _ \<Rightarrow> c)"

definition stem :: "ustr \<Rightarrow> ustr" where
  "stem p =
     (let name = path_name p
      in case rfind name DOT of
           None \<Rightarrow> name
         | Some i \<Rightarrow> if 0 < i \<and> i < length name - 1 then take i name else name)"

text \<open>
  An exception caught by \<open>except Exception as e\<close>: \<open>str_e\<close> is what \<open>str(e)\<close> gives,
  \<open>marcos\<close> is the part of its trace that belongs to the exception itself (the frames
  below \<open>procesar_imagen\<close> and the last line with its type). Only instances of
  \<open>Exception\<close> are modelled.
\<close>

datatype exn = Exn (str_e: ustr) (marcos: ustr)

section \<open>The collaborators\<close>

text \<open>
  The file system, the segmentation engine \<open>rembg.remove\<close> and the image codec of PIL
  are outside the source. They are parameters of the model: \<open>'fs\<close> is the state of the
  file system and \<open>'img\<close> an RGBA image in memory. Every call that can raise returns a
  sum, \<open>Inl\<close> for the exception. \<open>open_rb\<close> is \<open>open(input_path, "rb")\<close> of line 67
  (\<open>None\<close> when the file opens) and \<open>read_bytes\<close> is \<open>f.read()\<close> of line 68.
  \<open>image_save\<close> receives the format and the keyword arguments of the call; it returns
  the file system it leaves behind and the exception it raised, if any.
  \<open>format_exc l e\<close> is the text \<open>traceback.format_exc()\<close> gives in the handler for the
  exception \<open>e\<close> raised by the statement at line \<open>l\<close> of the source: the trace names
  that line, the rest depends on the installation.
\<close>

record ('fs, 'img) env =
  path_exists :: "'fs \<Rightarrow> ustr \<Rightarrow> bool"
  path_getsize :: "'fs \<Rightarrow> ustr \<Rightarrow> exn + nat"
  open_rb :: "'fs \<Rightarrow> ustr \<Rightarrow> exn option"
  read_bytes :: "'fs \<Rightarrow> ustr \<Rightarrow> exn + bytes"
  remove :: "bytes \<Rightarrow> exn + bytes"
  open_rgba :: "bytes \<Rightarrow> exn + 'img"
  image_save :: "'fs \<Rightarrow> ustr \<Rightarrow> 'img \<Rightarrow> ustr \<Rightarrow> bool \<Rightarrow> nat \<Rightarrow> 'fs \<times> exn option"
  listdir :: "'fs \<Rightarrow> ustr \<Rightarrow> ustr list"
  format_exc :: "nat \<Rightarrow> exn \<Rightarrow> ustr"

section \<open>procesar\_imagen\<close>

text \<open>
  The outcome of one call: the lines it printed, the file system afterwards and the
  returned string.
\<close>

record 'fs salida =
  impreso :: "ustr list"
  archivos_fs :: "'fs"
  retorno :: ustr

definition msg_procesando :: "ustr \<Rightarrow> ustr" where
  "msg_procesando filename = [128260] @ asc '' Procesando: '' @ filename"

definition msg_leyendo :: "nat \<Rightarrow> ustr \<Rightarrow> ustr" where
  "msg_leyendo n filename =
     [128214] @ asc '' Leyendo '' @ str_nat n @ asc '' bytes de '' @ filename"

definition msg_removiendo :: "ustr \<Rightarrow> ustr" where
  "msg_removiendo filename = [129302] @ asc '' Removiendo fondo de '' @ filename @ asc ''...''"

definition msg_removido :: "ustr \<Rightarrow> nat \<Rightarrow> ustr" where
  "msg_removido filename n =
     [10024] @ asc '' Fondo removido de '' @ filename @ asc '', '' @ str_nat n
       @ asc '' bytes generados''"

definition msg_guardando :: "ustr \<Rightarrow> ustr" where
  "msg_guardando output_path = [128190] @ asc '' Guardando en: '' @ output_path"

definition msg_no_encontrado :: "ustr \<Rightarrow> ustr" where
  "msg_no_encontrado filename = [CROSS] @ asc '' Archivo no encontrado: '' @ filename"

definition msg_sin_datos :: "ustr \<Rightarrow> ustr" where
  "msg_sin_datos filename = [CROSS] @ asc '' No se pudieron leer datos de: '' @ filename"

definition msg_rembg_vacio :: "ustr \<Rightarrow> ustr" where
  "msg_rembg_vacio filename =
     [CROSS] @ asc '' Error con '' @ filename @ asc '': rembg no devolvi'' @ [243]
       @ asc '' datos''"

definition msg_exito :: "ustr \<Rightarrow> ustr \<Rightarrow> ustr" where
  "msg_exito filename output_filename =
     [CHECK] @ asc '' Procesado exitosamente: '' @ filename @ asc '' '' @ [ARROW]
       @ asc '' '' @ output_filename"

definition msg_error_guardar :: "ustr \<Rightarrow> ustr" where
  "msg_error_guardar filename = [CROSS] @ asc '' Error al guardar: '' @ filename"

definition msg_error_con :: "ustr \<Rightarrow> exn \<Rightarrow> ustr \<Rightarrow> ustr" where
  "msg_error_con filename e tb =
     [CROSS] @ asc '' Error con '' @ filename @ asc '': '' @ str_e e @ [NL] @ tb"

definition nombre_salida :: "ustr \<Rightarrow> ustr" where
  "nombre_salida filename = stem filename @ asc ''_sin_fondo.webp''"

text \<open>
  The body of the \<open>try\<close> block, lines 60 to 102. The third component is \<open>Inr\<close> of the
  string a \<open>return\<close> statement gives, or \<open>Inl\<close> of the exception that left the block,
  with the line of the statement that raised it.
\<close>

definition cuerpo ::
  "('fs, 'img) env \<Rightarrow> 'fs \<Rightarrow> ustr \<Rightarrow> ustr \<Rightarrow> ustr \<Rightarrow>
     ustr list \<times> 'fs \<times> (nat \<times> exn + ustr)" where
  "cuerpo E fs input_path output_folder filename =
     (let out1 = [msg_procesando filename] in
      if \<not> path_exists E fs input_path then (out1, fs, Inr (msg_no_encontrado filename))
      else (case open_rb E fs input_path of
        Some e \<Rightarrow> (out1, fs, Inl (67, e))
      | None \<Rightarrow>
      (case read_bytes E fs input_path of
        Inl e \<Rightarrow> (out1, fs, Inl (68, e))
      | Inr in_bytes \<Rightarrow>
          if in_bytes = [] then (out1, fs, Inr (msg_sin_datos filename))
          else
            (let out2 = out1 @ [msg_leyendo (length in_bytes) filename, msg_removiendo filename] in
            (case remove E in_bytes of
              Inl e \<Rightarrow> (out2, fs, Inl (78, e))
            | Inr out_bytes \<Rightarrow>
                if out_bytes = [] then (out2, fs, Inr (msg_rembg_vacio filename))
                else
                  (let out3 = out2 @ [msg_removido filename (length out_bytes)] in
                  (case open_rgba E out_bytes of
                    Inl e \<Rightarrow> (out3, fs, Inl (87, e))
                  | Inr output_img \<Rightarrow>
                      (let output_filename = nombre_salida filename;
                           output_path = os_path_join output_folder output_filename;
                           out4 = out3 @ [msg_guardando output_path]
                       in (case image_save E fs output_path output_img (asc ''WEBP'') True 100 of
                            (fs', Some e) \<Rightarrow> (out4, fs', Inl (96, e))
                          | (fs', None) \<Rightarrow>
                              if \<not> path_exists E fs' output_path
                              then (out4, fs', Inr (msg_error_guardar filename))
                              else (case path_getsize E fs' output_path of
                                     Inl e \<Rightarrow> (out4, fs', Inl (99, e))
                                   | Inr n \<Rightarrow>
                                       if 0 < n
                                       then (out4, fs', Inr (msg_exito filename output_filename))
                                       else (out4, fs', Inr (msg_error_guardar filename))))))))))))"

text \<open>
  The whole function: the triple is unpacked, the input path is joined, and the handler
  of line 104 turns an exception of the body into a returned string, made of its
  message and of the trace \<open>traceback.format_exc()\<close> gives.
\<close>

type_synonym tarea = "ustr \<times> ustr \<times> ustr"

definition procesar_imagen :: "('fs, 'img) env \<Rightarrow> 'fs \<Rightarrow> tarea \<Rightarrow> 'fs salida" where
  "procesar_imagen E fs args =
     (case args of (input_folder, output_folder, filename) \<Rightarrow>
        (let input_path = os_path_join input_folder filename
         in (case cuerpo E fs input_path output_folder filename of
               (out, fs', r) \<Rightarrow>
                 \<lparr>impreso = out, archivos_fs = fs',
                  retorno = (case r of
                               Inr s \<Rightarrow> s
                             | Inl (l, e) \<Rightarrow> msg_error_con filename e (format_exc E l e))\<rparr>)))"

section \<open>The batch of main\<close>

text \<open>Line 14, and the filter of lines 150 to 153 over the names \<open>os.listdir\<close> gives.\<close>

definition VALID_EXTENSIONS :: "ustr list" where
  "VALID_EXTENSIONS =
     [asc ''.jpg'', asc ''.jpeg'', asc ''.png'', asc ''.webp'', asc ''.bmp'', asc ''.tiff'']"

definition es_valido :: "ustr \<Rightarrow> bool" where
  "es_valido f = (lower (snd (splitext f)) \<in> set VALID_EXTENSIONS)"

definition buscar_archivos :: "('fs, 'img) env \<Rightarrow> 'fs \<Rightarrow> ustr \<Rightarrow> ustr list" where
  "buscar_archivos E fs input_folder = filter es_valido (listdir E fs input_folder)"

text \<open>
  The variables of main that processing changes: the file system, the calls
  of \<open>print\<close> so far (one entry for each call) and the two counters.
\<close>

record 'fs estado =
  sistema :: "'fs"
  consola :: "ustr list"
  resultados_exitosos :: nat
  resultados_con_error :: nat

definition msg_progreso :: "nat \<Rightarrow> nat \<Rightarrow> ustr \<Rightarrow> ustr" where
  "msg_progreso i n resultado =
     asc ''['' @ str_nat i @ asc ''/'' @ str_nat n @ asc ''] '' @ resultado"

text \<open>
  The body shared by the loop over the pool and the sequential loop (lines 180 to 185
  and 194 to 199): the progress line, then
  one of the two counters.
\<close>

definition registrar :: "nat \<Rightarrow> nat \<Rightarrow> ustr \<Rightarrow> 'fs estado \<Rightarrow> 'fs estado" where
  "registrar i n resultado st =
     (let st1 = st\<lparr>consola := consola st @ [msg_progreso i n resultado]\<rparr>
      in if py_in [CHECK] resultado
         then st1\<lparr>resultados_exitosos := resultados_exitosos st1 + 1\<rparr>
         else st1\<lparr>resultados_con_error := resultados_con_error st1 + 1\<rparr>)"

text \<open>The loop of line 179 over the results the pool hands over, counted from \<open>i\<close>.\<close>

fun bucle_pool :: "nat \<Rightarrow> nat \<Rightarrow> ustr list \<Rightarrow> 'fs estado \<Rightarrow> 'fs estado" where
  "bucle_pool i n [] st = st"
| "bucle_pool i n (resultado # rs) st = bucle_pool (Suc i) n rs (registrar i n resultado st)"

text \<open>The sequential loop of lines 192 to 199.\<close>

fun bucle_secuencial ::
  "('fs, 'img) env \<Rightarrow> ustr \<Rightarrow> ustr \<Rightarrow> nat \<Rightarrow> nat \<Rightarrow> ustr list \<Rightarrow> 'fs estado \<Rightarrow> 'fs estado" where
  "bucle_secuencial E input_folder output_folder i n [] st = st"
| "bucle_secuencial E input_folder output_folder i n (archivo # rest) st =
     (let s = procesar_imagen E (sistema st) (input_folder, output_folder, archivo);
          st1 = st\<lparr>sistema := archivos_fs s, consola := consola st @ impreso s\<rparr>
      in bucle_secuencial E input_folder output_folder (Suc i) n rest
           (registrar i n (retorno s) st1))"

section \<open>The process pool\<close>

text \<open>
  \<open>ProcessPoolExecutor\<close> is part of Python's library. What one run of
  \<open>executor.map(procesar_imagen, tareas)\<close> does depends on the scheduling of the
  workers and on whether a worker dies; a \<open>plan\<close> fixes both. \<open>completados\<close> lists
  the positions of the tasks in the order in which the workers finish them, and
  \<open>fallo\<close> is the exception the pool raises when it breaks (\<open>BrokenProcessPool\<close>, or
  the error of a pool that could not be started, with nothing completed).

  Each task runs in a worker as one call of \<open>procesar_imagen\<close>; the calls take effect
  on the file system in the order of completion. \<open>hechos\<close> records the position and
  the returned string of every finished call, in that order.
\<close>

record plan =
  completados :: "nat list"
  fallo :: exn

fun trabajadores ::
  "('fs, 'img) env \<Rightarrow> tarea list \<Rightarrow> nat list \<Rightarrow> 'fs \<times> (nat \<times> ustr) list \<times> ustr list \<Rightarrow>
     'fs \<times> (nat \<times> ustr) list \<times> ustr list" where
  "trabajadores E tareas [] acc = acc"
| "trabajadores E tareas (k # ks) (fs, hechos, out) =
     (if k < length tareas \<and> map_of hechos k = None
      then (let s = procesar_imagen E fs (tareas ! k)
            in trabajadores E tareas ks
                 (archivos_fs s, hechos @ [(k, retorno s)], out @ impreso s))
      else trabajadores E tareas ks (fs, hechos, out))"

text \<open>
  With \<open>w\<close> workers a task can only finish while fewer than \<open>w\<close> of the tasks
  submitted before it are still unfinished.
\<close>

definition plan_posible :: "nat \<Rightarrow> nat list \<Rightarrow> bool" where
  "plan_posible w ks =
     (\<forall>p < length ks. length (filter (\<lambda>j. j \<notin> set (take p ks)) [0..<ks ! p]) < w)"

text \<open>
  The iterator \<open>executor.map\<close> returns gives the result of the first submitted task,
  then of the second, and so on; it raises at the first task that has no result
  because the pool broke.
\<close>

definition entregados :: "(nat \<times> ustr) list \<Rightarrow> nat \<Rightarrow> ustr list" where
  "entregados hechos n =
     map (\<lambda>i. the (map_of hechos i)) (takeWhile (\<lambda>i. map_of hechos i \<noteq> None) [0..<n])"

definition max_workers :: "ustr list \<Rightarrow> nat" where
  "max_workers archivos = min 2 (length archivos)"

definition msg_error_pool :: "exn \<Rightarrow> ustr" where
  "msg_error_pool e =
     [CROSS] @ asc '' Error durante el procesamiento multiproceso: '' @ str_e e"

definition msg_secuencial :: ustr where
  "msg_secuencial = [NL, 128260] @ asc '' Intentando procesamiento secuencial...''"

text \<open>
  Lines 169 to 199. The counters start at zero; the loop of line 179 registers what the
  pool hands over; when the pool raises, the handler of line 187 prints its two lines
  and runs the sequential loop over all of \<open>archivos\<close>, on the state the \<open>try\<close> block
  left. The lines the workers print are put before those of the main process.
\<close>

definition lote ::
  "('fs, 'img) env \<Rightarrow> ustr \<Rightarrow> ustr \<Rightarrow> ustr list \<Rightarrow> plan \<Rightarrow> 'fs \<Rightarrow> ustr list \<Rightarrow> 'fs estado" where
  "lote E input_folder output_folder archivos P fs0 out0 =
     (let n = length archivos;
          tareas = map (\<lambda>f. (input_folder, output_folder, f)) archivos
      in (case trabajadores E tareas (completados P) (fs0, [], out0) of
            (fs1, hechos, out1) \<Rightarrow>
              (let rs = entregados hechos n;
                   st1 = bucle_pool 1 n rs
                           \<lparr>sistema = fs1, consola = out1,
                            resultados_exitosos = 0, resultados_con_error = 0\<rparr>
               in if length rs = n then st1
                  else bucle_secuencial E input_folder output_folder 1 n archivos
                         (st1\<lparr>consola := consola st1 @ [msg_error_pool (fallo P), msg_secuencial]\<rparr>))))"

text \<open>
  The sequential loop alone, from counters at zero: the baseline the fallback is compared
  with.
\<close>

definition solo_secuencial ::
  "('fs, 'img) env \<Rightarrow> ustr \<Rightarrow> ustr \<Rightarrow> ustr list \<Rightarrow> 'fs \<Rightarrow> ustr list \<Rightarrow> 'fs estado" where
  "solo_secuencial E input_folder output_folder archivos fs0 out0 =
     bucle_secuencial E input_folder output_folder 1 (length archivos) archivos
       \<lparr>sistema = fs0, consola = out0, resultados_exitosos = 0, resultados_con_error = 0\<rparr>"

text \<open>
  Lines 134 and 149 to 199 of main, on the file system that the creation of the output
  folder and the permission probe have left. With no valid file main returns before
  anything is processed (\<open>None\<close>). The banner, the listing of the files found and the
  summary only print the values computed here.
\<close>

definition principal ::
  "('fs, 'img) env \<Rightarrow> 'fs \<Rightarrow> ustr \<Rightarrow> plan \<Rightarrow> 'fs estado option" where
  "principal E fs input_folder P =
     (let output_folder = os_path_join input_folder (asc ''imagenes_sin_fondo'');
          archivos = buscar_archivos E fs input_folder
      in if archivos = [] then None
         else Some (lote E input_folder output_folder archivos P fs []))"

section \<open>Running a batch again\<close>




text \<open>
  The file systems a batch over \<open>archivos\<close> can lead to from \<open>fs0\<close>: the only call
  of \<open>procesar_imagen\<close> that changes the file system is the save of line 96, at the
  output path of one of the files.
\<close>

inductive alcanzable ::
  "('fs, 'img) env \<Rightarrow> ustr \<Rightarrow> ustr list \<Rightarrow> 'fs \<Rightarrow> 'fs \<Rightarrow> bool"
  for E :: "('fs, 'img) env" and out :: ustr and archivos :: "ustr list" and fs0 :: 'fs where
  inicio: "alcanzable E out archivos fs0 fs0"
| guardado: "alcanzable E out archivos fs0 fs \<Longrightarrow> f \<in> set archivos \<Longrightarrow>
     alcanzable E out archivos fs0
       (fst (image_save E fs (os_path_join out (nombre_salida f)) img (asc ''WEBP'') True 100))"

section \<open>A small world to run the program in\<close>

text \<open>
  A concrete file system for the closed examples: an association list from paths to file
  contents, the first entry of a path being the current one. Reading gives the content,
  the size is its length, saving puts a new first entry. A file whose content starts
  with byte 4 cannot be opened. The stand-in for \<open>rembg\<close> raises on content that starts
  with byte 0, the decoder on content that starts with byte 1. Saving raises on an
  image that starts with byte 2, leaves an empty file for one that starts with byte 3,
  and for one that starts with byte 5 it writes the file and then raises. A directory
  lists the names directly below it. The trace names the script and the line.
\<close>

definition e_prueba :: exn where
  "e_prueba = Exn (asc ''boom'') (asc ''RuntimeError: boom'' @ [NL])"

definition traza :: "nat \<Rightarrow> exn \<Rightarrow> ustr" where
  "traza l e =
     asc ''Traceback (most recent call last):'' @ [NL]
       @ asc ''  File '' @ [34] @ asc ''limpiarfondo.py'' @ [34] @ asc '', line '' @ str_nat l
       @ asc '', in procesar_imagen'' @ [NL] @ marcos e"

definition listar :: "(ustr \<times> bytes) list \<Rightarrow> ustr \<Rightarrow> ustr list" where
  "listar fs d =
     remdups (map (\<lambda>(p, b). drop (Suc (length d)) p)
       (filter (\<lambda>(p, b). take (Suc (length d)) p = d @ [SEP] \<and>
                            SEP \<notin> set (drop (Suc (length d)) p)) fs))"

definition E_prueba :: "((ustr \<times> bytes) list, bytes) env" where
  "E_prueba =
     \<lparr>path_exists = (\<lambda>fs p. map_of fs p \<noteq> None),
      path_getsize = (\<lambda>fs p. case map_of fs p of
                                None \<Rightarrow> Inl (Exn (asc ''No such file or directory'') [])
                              | Some b \<Rightarrow> Inr (length b)),
      open_rb = (\<lambda>fs p. case map_of fs p of
                           None \<Rightarrow> Some (Exn (asc ''No such file or directory'') [])
                         | Some b \<Rightarrow> if b \<noteq> [] \<and> hd b = 4 then Some e_prueba else None),
      read_bytes = (\<lambda>fs p. case map_of fs p of
                              None \<Rightarrow> Inl (Exn (asc ''No such file or directory'') [])
                            | Some b \<Rightarrow> Inr b),
      remove = (\<lambda>b. if hd b = 0 then Inl e_prueba else Inr b),
      open_rgba = (\<lambda>b. if hd b = 1 then Inl e_prueba else Inr b),
      image_save = (\<lambda>fs p img fmt lossless quality.
                      if hd img = 2 then (fs, Some e_prueba)
                      else if hd img = 3 then ((p, []) # fs, None)
                      else if hd img = 5 then ((p, img) # fs, Some e_prueba)
                      else ((p, img) # fs, None)),
      listdir = listar,
      format_exc = traza\<rparr>"

text \<open>
  The folder of the example of the specification: a valid image, a text file and an
  image file of zero bytes.
\<close>

definition fs_prueba :: "(ustr \<times> bytes) list" where
  "fs_prueba = [(asc ''in/a.jpg'', [7, 7, 7]), (asc ''in/b.txt'', [7]), (asc ''in/c.png'', [])]"

definition estado_inicial :: "'fs \<Rightarrow> 'fs estado" where
  "estado_inicial fs =
     \<lparr>sistema = fs, consola = [], resultados_exitosos = 0, resultados_con_error = 0\<rparr>"


text \<open>
  Two folders with one file each: the first file fails in the decoder, the second in
  saving.
\<close>

definition fs_decodificacion :: "(ustr \<times> bytes) list" where
  "fs_decodificacion = [(asc ''in/x.png'', [1, 1])]"

definition fs_escritura :: "(ustr \<times> bytes) list" where
  "fs_escritura = [(asc ''in/x.png'', [2, 2])]"



definition fs_salida_vacia :: "(ustr \<times> bytes) list" where
  "fs_salida_vacia = [(asc ''in/x.png'', [3, 3])]"

definition fs_parcial :: "(ustr \<times> bytes) list" where
  "fs_parcial = [(asc ''in/x.png'', [5, 5, 5])]"




text \<open>
  The exception of a broken pool, and names for the folder of the example, its output
  folder, its two image files and the output file of the first.
\<close>

definition e_pool :: exn where
  "e_pool = Exn (asc ''A process in the process pool was terminated abruptly'') []"

definition dir_in :: ustr where "dir_in = asc ''in''"
definition dir_out :: ustr where "dir_out = asc ''in/imagenes_sin_fondo''"
definition a_jpg :: ustr where "a_jpg = asc ''a.jpg''"
definition c_png :: ustr where "c_png = asc ''c.png''"
definition a_webp :: ustr where "a_webp = asc ''in/imagenes_sin_fondo/a_sin_fondo.webp''"

section \<open>Basic facts\<close>

lemma py_in_single: "py_in [c] s \<longleftrightarrow> c \<in> set s"
  by (auto simp: py_in_def sublist_def in_set_conv_decomp)

lemmas msg_defs = msg_no_encontrado_def msg_sin_datos_def msg_rembg_vacio_def msg_exito_def
  msg_error_guardar_def msg_error_con_def

lemmas prueba_defs = E_prueba_def fs_prueba_def e_prueba_def listar_def os_path_join_def
  asc_def SEP_def DOT_def

lemma procesar_no_existe:
  "\<not> path_exists E fs (os_path_join input_folder filename) \<Longrightarrow>
     procesar_imagen E fs (input_folder, output_folder, filename) =
       \<lparr>impreso = [msg_procesando filename], archivos_fs = fs,
        retorno = msg_no_encontrado filename\<rparr>"
  by (simp add: procesar_imagen_def cuerpo_def Let_def)




lemma asc_menor: "c \<in> set (asc s) \<Longrightarrow> c < 256"
  by (auto simp: asc_def)

lemma asc_sin_marca: "CHECK \<notin> set (asc s)"
  using asc_menor [of CHECK s] by (auto simp: CHECK_def)

lemma rfind_None: "rfind xs c = None \<longleftrightarrow> c \<notin> set xs"
  by (induction xs) (auto split: option.splits)

lemma rfind_ultimo: "c \<notin> set ys \<Longrightarrow> rfind (xs @ c # ys) c = Some (length xs)"
proof (induction xs)
  case Nil
  then have "rfind ys c = None" by (simp add: rfind_None)
  then show ?case by simp
next
  case (Cons x xs)
  then show ?case by simp
qed

lemma splitext_nombre:
  assumes "SEP \<notin> set base" and "\<exists>c \<in> set base. c \<noteq> DOT"
    and "SEP \<notin> set suf" and "DOT \<notin> set suf"
  shows "splitext (base @ DOT # suf) = (base, DOT # suf)"
proof -
  have s: "rfind (base @ DOT # suf) SEP = None"
    using assms by (simp add: rfind_None SEP_def DOT_def)
  have d: "rfind (base @ DOT # suf) DOT = Some (length base)"
    using assms by (simp add: rfind_ultimo)
  show ?thesis
    using assms(2) by (simp add: splitext_def s d)
qed

lemma registrar_exitosos:
  "resultados_exitosos (registrar i n r st) =
     resultados_exitosos st + (if CHECK \<in> set r then 1 else 0)"
  by (simp add: registrar_def Let_def py_in_single)

lemma registrar_con_error:
  "resultados_con_error (registrar i n r st) =
     resultados_con_error st + (if CHECK \<in> set r then 0 else 1)"
  by (simp add: registrar_def Let_def py_in_single)

lemma registrar_sistema: "sistema (registrar i n r st) = sistema st"
  by (simp add: registrar_def Let_def)


lemma exito_no_es_error: "msg_exito f g \<noteq> msg_error_guardar f'"
  by (simp add: msg_exito_def msg_error_guardar_def CHECK_def CROSS_def)

lemma lower_cp_fijo: "c < 65 \<Longrightarrow> (lower_cp x = c) = (x = c)"
  by (auto simp: lower_cp_def)

lemma rfind_lower: "c < 65 \<Longrightarrow> rfind (lower p) c = rfind p c"
  by (induction p) (simp_all add: lower_def lower_cp_fijo split: option.splits)

lemma lower_idem: "lower (lower s) = lower s"
  by (simp add: lower_def lower_cp_def)

lemma splitext_lower:
  "splitext (lower p) = (lower (fst (splitext p)), lower (snd (splitext p)))"
proof -
  have s: "rfind (lower p) SEP = rfind p SEP" by (rule rfind_lower) (simp add: SEP_def)
  have d: "rfind (lower p) DOT = rfind p DOT" by (rule rfind_lower) (simp add: DOT_def)
  have q: "(\<exists>c \<in> set (lower xs). c \<noteq> DOT) = (\<exists>c \<in> set xs. c \<noteq> DOT)" for xs
    by (simp add: lower_def lower_cp_fijo DOT_def)
  have q': "(\<forall>c \<in> set (lower xs). c = DOT) = (\<forall>c \<in> set xs. c = DOT)" for xs
    by (simp add: lower_def lower_cp_fijo DOT_def)
  have t: "take b (lower xs) = lower (take b xs)" "drop b (lower xs) = lower (drop b xs)"
    for b xs
    by (simp_all add: lower_def take_map drop_map)
  have n: "lower [] = []" by (simp add: lower_def)
  show ?thesis
    by (auto simp add: splitext_def s d t q q' Let_def n split: option.splits)
qed

lemma registrar_suma:
  "resultados_exitosos (registrar i n r st) + resultados_con_error (registrar i n r st)
     = Suc (resultados_exitosos st + resultados_con_error st)"
  by (simp add: registrar_exitosos registrar_con_error)

lemma bucle_pool_suma:
  "resultados_exitosos (bucle_pool i n rs st) + resultados_con_error (bucle_pool i n rs st)
     = resultados_exitosos st + resultados_con_error st + length rs"
  by (induction rs arbitrary: i st) (simp_all add: registrar_suma)

lemma bucle_secuencial_suma:
  "resultados_exitosos (bucle_secuencial E a b i n fs st)
     + resultados_con_error (bucle_secuencial E a b i n fs st)
     = resultados_exitosos st + resultados_con_error st + length fs"
  by (induction fs arbitrary: i st) (simp_all add: registrar_suma Let_def)

lemma registrar_consola:
  "consola (registrar i n r st) = consola st @ [msg_progreso i n r]"
  by (simp add: registrar_def Let_def)

lemma bucle_pool_consola:
  "consola (bucle_pool i n rs st)
     = consola st @ map (\<lambda>j. msg_progreso (i + j) n (rs ! j)) [0..<length rs]"
proof (induction rs arbitrary: i st)
  case Nil
  then show ?case by simp
next
  case (Cons r rs)
  have "[0..<length (r # rs)] = 0 # map Suc [0..<length rs]"
    by (simp add: upt_conv_Cons map_Suc_upt del: upt_Suc)
  then show ?case
    by (simp add: Cons.IH registrar_consola comp_def del: upt_Suc)
qed

lemma trabajadores_dom:
  "trabajadores E tareas ks (fs, hechos, out) = (fs', hechos', out') \<Longrightarrow>
     fst ` set hechos' = fst ` set hechos \<union> {k \<in> set ks. k < length tareas}"
proof (induction ks arbitrary: fs hechos out)
  case Nil
  then show ?case by simp
next
  case (Cons k ks)
  show ?case
  proof (cases "k < length tareas \<and> map_of hechos k = None")
    case True
    with Cons.prems have "trabajadores E tareas ks
        (archivos_fs (procesar_imagen E fs (tareas ! k)),
         hechos @ [(k, retorno (procesar_imagen E fs (tareas ! k)))],
         out @ impreso (procesar_imagen E fs (tareas ! k))) = (fs', hechos', out')"
      by (simp add: Let_def)
    from Cons.IH [OF this] True show ?thesis by auto
  next
    case False
    with Cons.prems have "trabajadores E tareas ks (fs, hechos, out) = (fs', hechos', out')"
      by auto
    from Cons.IH [OF this] False show ?thesis
      by (auto simp: map_of_eq_None_iff)
  qed
qed

lemma trabajadores_origen:
  "trabajadores E tareas ks (fs, hechos, out) = (fs', hechos', out') \<Longrightarrow>
   (\<forall>(k, r) \<in> set hechos. k < length tareas
        \<and> (\<exists>fsk. r = retorno (procesar_imagen E fsk (tareas ! k)))) \<Longrightarrow>
   (\<forall>(k, r) \<in> set hechos'. k < length tareas
        \<and> (\<exists>fsk. r = retorno (procesar_imagen E fsk (tareas ! k))))"
proof (induction ks arbitrary: fs hechos out)
  case Nil
  then show ?case by simp
next
  case (Cons k ks)
  show ?case
  proof (cases "k < length tareas \<and> map_of hechos k = None")
    case True
    with Cons.prems(1) have t: "trabajadores E tareas ks
        (archivos_fs (procesar_imagen E fs (tareas ! k)),
         hechos @ [(k, retorno (procesar_imagen E fs (tareas ! k)))],
         out @ impreso (procesar_imagen E fs (tareas ! k))) = (fs', hechos', out')"
      by (simp add: Let_def)
    show ?thesis
      by (rule Cons.IH [OF t]) (use True Cons.prems(2) in auto)
  next
    case False
    with Cons.prems(1) have t: "trabajadores E tareas ks (fs, hechos, out) = (fs', hechos', out')"
      by auto
    show ?thesis by (rule Cons.IH [OF t Cons.prems(2)])
  qed
qed

lemma entregados_completo:
  assumes "\<forall>i < n. i \<in> fst ` set hechos"
  shows "entregados hechos n = map (\<lambda>i. the (map_of hechos i)) [0..<n]"
proof -
  have "takeWhile (\<lambda>i. map_of hechos i \<noteq> None) [0..<n] = [0..<n]"
    using assms by (simp add: map_of_eq_None_iff)
  then show ?thesis by (simp only: entregados_def)
qed

lemma lote_suma:
  assumes "trabajadores E (map (\<lambda>f. (input_folder, output_folder, f)) archivos)
             (completados P) (fs0, [], out0) = (fs1, hechos, out1)"
  shows "resultados_exitosos (lote E input_folder output_folder archivos P fs0 out0)
       + resultados_con_error (lote E input_folder output_folder archivos P fs0 out0)
     = (if length (entregados hechos (length archivos)) = length archivos
        then length archivos
        else length (entregados hechos (length archivos)) + length archivos)"
  using assms
  by (simp add: lote_def Let_def bucle_pool_suma bucle_secuencial_suma)

lemma procesar_a:
  assumes "map_of fs (asc ''in/a.jpg'') = Some [7, 7, 7]"
  shows "procesar_imagen E_prueba fs (dir_in, dir_out, a_jpg) =
     \<lparr>impreso = [msg_procesando a_jpg, msg_leyendo 3 a_jpg, msg_removiendo a_jpg,
                 msg_removido a_jpg 3, msg_guardando a_webp],
      archivos_fs = (a_webp, [7, 7, 7]) # fs,
      retorno = msg_exito a_jpg (asc ''a_sin_fondo.webp'')\<rparr>"
proof -
  have l: "length [7, 7, 7::nat] = 3" by simp
  have "procesar_imagen E_prueba fs (dir_in, dir_out, a_jpg) =
     \<lparr>impreso = [msg_procesando a_jpg, msg_leyendo (length [7, 7, 7::nat]) a_jpg,
                 msg_removiendo a_jpg, msg_removido a_jpg (length [7, 7, 7::nat]),
                 msg_guardando a_webp],
      archivos_fs = (a_webp, [7, 7, 7]) # fs,
      retorno = msg_exito a_jpg (asc ''a_sin_fondo.webp'')\<rparr>"
    using assms
    by (simp add: procesar_imagen_def cuerpo_def E_prueba_def e_prueba_def os_path_join_def
        nombre_salida_def stem_def path_name_def Let_def dir_in_def dir_out_def a_jpg_def
        a_webp_def asc_def SEP_def DOT_def)
  then show ?thesis by (simp only: l)
qed

lemma procesar_c:
  "map_of fs (asc ''in/c.png'') = Some [] \<Longrightarrow>
   procesar_imagen E_prueba fs (dir_in, dir_out, c_png) =
     \<lparr>impreso = [msg_procesando c_png], archivos_fs = fs, retorno = msg_sin_datos c_png\<rparr>"
  by (simp add: procesar_imagen_def cuerpo_def E_prueba_def os_path_join_def Let_def
      dir_in_def c_png_def asc_def SEP_def)

lemma fs_prueba_a: "map_of fs_prueba (asc ''in/a.jpg'') = Some [7, 7, 7]"
  and fs_prueba_c: "map_of fs_prueba (asc ''in/c.png'') = Some []"
  and fs_prueba_a': "asc ''in/a.jpg'' \<noteq> a_webp"
  and fs_prueba_c': "asc ''in/c.png'' \<noteq> a_webp"
  by (simp_all add: fs_prueba_def a_webp_def asc_def)

lemma marca_exito: "CHECK \<in> set (msg_exito f g)"
  by (simp add: msg_exito_def)

lemma marca_c: "CHECK \<notin> set (msg_sin_datos c_png)"
  by (simp add: msg_sin_datos_def c_png_def asc_def CHECK_def CROSS_def)

lemma buscar_prueba: "buscar_archivos E_prueba fs_prueba dir_in = [a_jpg, c_png]"
  by (simp add: buscar_archivos_def es_valido_def splitext_def lower_def lower_cp_def
      VALID_EXTENSIONS_def prueba_defs dir_in_def a_jpg_def c_png_def)

lemmas eval_prueba = procesar_a procesar_c fs_prueba_a fs_prueba_c fs_prueba_a' fs_prueba_c'
  marca_exito marca_c registrar_exitosos registrar_con_error registrar_sistema
  registrar_consola entregados_def Let_def numeral_2_eq_2 numeral_3_eq_3

























section \<open>The missing input file\<close>

text \<open>
  Claim C5. When the joined input path does not exist, \<open>procesar_imagen\<close> returns the
  cross mark followed by \<open>Archivo no encontrado:\<close> and the file name, and the file
  system it leaves is the one it was given: \<open>image_save\<close> is never reached, nothing is
  written. When the file name has no check mark the text has none, and the loop of main
  that receives it adds one to the errors and leaves the successes as they are.
\<close>

theorem C5_archivo_no_encontrado:
  assumes "\<not> path_exists E fs (os_path_join input_folder filename)"
  shows "retorno (procesar_imagen E fs (input_folder, output_folder, filename))
           = CROSS # asc '' Archivo no encontrado: '' @ filename
       \<and> archivos_fs (procesar_imagen E fs (input_folder, output_folder, filename)) = fs
       \<and> (CHECK \<notin> set filename \<longrightarrow>
            \<not> py_in [CHECK]
                (retorno (procesar_imagen E fs (input_folder, output_folder, filename)))
          \<and> resultados_exitosos
              (registrar i n
                 (retorno (procesar_imagen E fs (input_folder, output_folder, filename))) st)
              = resultados_exitosos st
          \<and> resultados_con_error
              (registrar i n
                 (retorno (procesar_imagen E fs (input_folder, output_folder, filename))) st)
              = Suc (resultados_con_error st))"
proof -
  have c: "CHECK \<noteq> CROSS" by (simp add: CHECK_def CROSS_def)
  show ?thesis
    using assms c
    by (simp add: procesar_no_existe msg_no_encontrado_def py_in_single asc_sin_marca
        registrar_exitosos registrar_con_error)
qed

theorem C5_archivo_no_encontrado_witness:
  "\<not> path_exists E_prueba fs_prueba (os_path_join (asc ''in'') (asc ''z.png''))
   \<and> CHECK \<notin> set (asc ''z.png'')
   \<and> retorno (procesar_imagen E_prueba fs_prueba
         (asc ''in'', asc ''in/imagenes_sin_fondo'', asc ''z.png''))
       = CROSS # asc '' Archivo no encontrado: z.png''
   \<and> archivos_fs (procesar_imagen E_prueba fs_prueba
         (asc ''in'', asc ''in/imagenes_sin_fondo'', asc ''z.png'')) = fs_prueba
   \<and> resultados_exitosos
        (registrar 1 1 (retorno (procesar_imagen E_prueba fs_prueba
           (asc ''in'', asc ''in/imagenes_sin_fondo'', asc ''z.png'')))
           (estado_inicial fs_prueba)) = 0
   \<and> resultados_con_error
        (registrar 1 1 (retorno (procesar_imagen E_prueba fs_prueba
           (asc ''in'', asc ''in/imagenes_sin_fondo'', asc ''z.png'')))
           (estado_inicial fs_prueba)) = 1"
proof -
  have h: "\<not> path_exists E_prueba fs_prueba (os_path_join (asc ''in'') (asc ''z.png''))"
    by (simp add: prueba_defs)
  have m: "CHECK \<notin> set (asc ''z.png'')" by (rule asc_sin_marca)
  have t: "asc '' Archivo no encontrado: '' @ asc ''z.png'' = asc '' Archivo no encontrado: z.png''"
    by (simp add: asc_def)
  note c = C5_archivo_no_encontrado [OF h, where output_folder = "asc ''in/imagenes_sin_fondo''"
      and i = 1 and n = 1 and st = "estado_inicial fs_prueba"]
  note c1 = c [THEN conjunct1]
  note c2 = c [THEN conjunct2, THEN conjunct1]
  note c3 = c [THEN conjunct2, THEN conjunct2, rule_format, OF m]
  from c1 c2 c3 h m show ?thesis
    by (simp add: t estado_inicial_def)
qed

section \<open>Isolation of a failing segmentation\<close>




section \<open>The write step\<close>

text \<open>
  Claim C4, as stated, does not hold: the verification of line 99 is only reached when
  \<open>save\<close> returns. In the example \<open>save\<close> writes the three bytes of the image and
  then raises: afterwards the output file exists and its size is three, and the call
  returns neither the text of success nor \<open>Error al guardar\<close> but the text
  \<open>Error con\<close> of the handler, with the trace of line 96.
\<close>

theorem C4_guardado_parcial_counterexample:
  "archivos_fs (procesar_imagen E_prueba fs_parcial (asc ''in'', asc ''out'', asc ''x.png''))
     = (asc ''out/x_sin_fondo.webp'', [5, 5, 5]) # fs_parcial
   \<and> path_exists E_prueba ((asc ''out/x_sin_fondo.webp'', [5, 5, 5]) # fs_parcial)
         (asc ''out/x_sin_fondo.webp'')
   \<and> path_getsize E_prueba ((asc ''out/x_sin_fondo.webp'', [5, 5, 5]) # fs_parcial)
         (asc ''out/x_sin_fondo.webp'') = Inr 3
   \<and> retorno (procesar_imagen E_prueba fs_parcial (asc ''in'', asc ''out'', asc ''x.png''))
       = CROSS # asc '' Error con x.png: boom'' @ NL # traza 96 e_prueba"
proof -
  have a: "archivos_fs (procesar_imagen E_prueba fs_parcial
        (asc ''in'', asc ''out'', asc ''x.png''))
     = (asc ''out/x_sin_fondo.webp'', [5, 5, 5]) # fs_parcial"
    by (simp add: procesar_imagen_def cuerpo_def prueba_defs fs_parcial_def
        nombre_salida_def stem_def path_name_def Let_def)
  have b: "path_exists E_prueba ((asc ''out/x_sin_fondo.webp'', [5, 5, 5]) # fs_parcial)
         (asc ''out/x_sin_fondo.webp'')"
    by (simp add: E_prueba_def)
  have c: "path_getsize E_prueba ((asc ''out/x_sin_fondo.webp'', [5, 5, 5]) # fs_parcial)
         (asc ''out/x_sin_fondo.webp'') = Inr 3"
    by (simp add: E_prueba_def)
  have d: "retorno (procesar_imagen E_prueba fs_parcial
        (asc ''in'', asc ''out'', asc ''x.png''))
       = CROSS # asc '' Error con x.png: boom'' @ NL # traza 96 e_prueba"
    by (simp add: procesar_imagen_def cuerpo_def prueba_defs fs_parcial_def msg_defs
        nombre_salida_def stem_def path_name_def Let_def)
  from a b c d show ?thesis by (intro conjI)
qed

text \<open>
  Claim C4, amended. For a task that gets as far as saving (the file exists, opens and
  has data, \<open>rembg\<close> returns data and the data decodes), the output path is the output
  folder joined with the stem of the name followed by \<open>_sin_fondo.webp\<close>, and the image
  is saved there as \<open>WEBP\<close> with \<open>lossless=True\<close> and \<open>quality=100\<close>. When \<open>save\<close>
  returns, the text of success (the check mark, \<open>Procesado exitosamente:\<close>, the name,
  the arrow and the output name) is returned exactly when that path exists afterwards
  with a size above zero, and the cross mark with \<open>Error al guardar:\<close> and the name
  otherwise. When \<open>save\<close> raises, or the size query does, the text \<open>Error con\<close> of the
  handler is returned with the trace of line 96, or 99, whatever \<open>save\<close> has written.
  The text of success has the check mark; \<open>Error al guardar\<close> has it only when the
  name has it.
\<close>

theorem C4_escritura_y_verificacion:
  assumes ex: "path_exists E fs (os_path_join input_folder filename)"
    and op: "open_rb E fs (os_path_join input_folder filename) = None"
    and rd: "read_bytes E fs (os_path_join input_folder filename) = Inr in_bytes"
    and ne: "in_bytes \<noteq> []"
    and rm: "remove E in_bytes = Inr out_bytes"
    and no: "out_bytes \<noteq> []"
    and dc: "open_rgba E out_bytes = Inr img"
  shows "(image_save E fs
            (os_path_join output_folder (stem filename @ asc ''_sin_fondo.webp''))
            img (asc ''WEBP'') True 100 = (fs', None)
          \<and> (path_exists E fs'
                (os_path_join output_folder (stem filename @ asc ''_sin_fondo.webp'')) \<longrightarrow>
              path_getsize E fs'
                (os_path_join output_folder (stem filename @ asc ''_sin_fondo.webp'')) = Inr n)
          \<longrightarrow>
          archivos_fs (procesar_imagen E fs (input_folder, output_folder, filename)) = fs'
          \<and> retorno (procesar_imagen E fs (input_folder, output_folder, filename))
              = (if path_exists E fs'
                      (os_path_join output_folder (stem filename @ asc ''_sin_fondo.webp''))
                    \<and> 0 < n
                 then CHECK # asc '' Procesado exitosamente: '' @ filename @ asc '' ''
                        @ ARROW # asc '' '' @ stem filename @ asc ''_sin_fondo.webp''
                 else CROSS # asc '' Error al guardar: '' @ filename)
          \<and> (retorno (procesar_imagen E fs (input_folder, output_folder, filename))
               = CHECK # asc '' Procesado exitosamente: '' @ filename @ asc '' ''
                   @ ARROW # asc '' '' @ stem filename @ asc ''_sin_fondo.webp''
             \<longleftrightarrow> path_exists E fs'
                    (os_path_join output_folder (stem filename @ asc ''_sin_fondo.webp''))
                  \<and> 0 < n))
       \<and> (image_save E fs
            (os_path_join output_folder (stem filename @ asc ''_sin_fondo.webp''))
            img (asc ''WEBP'') True 100 = (fs', Some e)
          \<longrightarrow>
          archivos_fs (procesar_imagen E fs (input_folder, output_folder, filename)) = fs'
          \<and> retorno (procesar_imagen E fs (input_folder, output_folder, filename))
              = CROSS # asc '' Error con '' @ filename @ asc '': '' @ str_e e @ NL
                  # format_exc E 96 e)
       \<and> (image_save E fs
            (os_path_join output_folder (stem filename @ asc ''_sin_fondo.webp''))
            img (asc ''WEBP'') True 100 = (fs', None)
          \<and> path_exists E fs'
               (os_path_join output_folder (stem filename @ asc ''_sin_fondo.webp''))
          \<and> path_getsize E fs'
               (os_path_join output_folder (stem filename @ asc ''_sin_fondo.webp'')) = Inl e
          \<longrightarrow>
          archivos_fs (procesar_imagen E fs (input_folder, output_folder, filename)) = fs'
          \<and> retorno (procesar_imagen E fs (input_folder, output_folder, filename))
              = CROSS # asc '' Error con '' @ filename @ asc '': '' @ str_e e @ NL
                  # format_exc E 99 e)
       \<and> py_in [CHECK] (CHECK # asc '' Procesado exitosamente: '' @ filename @ asc '' ''
            @ ARROW # asc '' '' @ stem filename @ asc ''_sin_fondo.webp'')
       \<and> (py_in [CHECK] (CROSS # asc '' Error al guardar: '' @ filename)
          \<longleftrightarrow> CHECK \<in> set filename)"
proof -
  let ?p = "os_path_join output_folder (stem filename @ asc ''_sin_fondo.webp'')"
  let ?s = "procesar_imagen E fs (input_folder, output_folder, filename)"
  let ?ok = "CHECK # asc '' Procesado exitosamente: '' @ filename @ asc '' ''
      @ ARROW # asc '' '' @ stem filename @ asc ''_sin_fondo.webp''"
  let ?ko = "CROSS # asc '' Error al guardar: '' @ filename"
  have c: "CHECK \<noteq> CROSS" by (simp add: CHECK_def CROSS_def)
  then have d: "?ok \<noteq> ?ko" by simp
  have A: "archivos_fs ?s = fs'
      \<and> retorno ?s = (if path_exists E fs' ?p \<and> 0 < n then ?ok else ?ko)
      \<and> (retorno ?s = ?ok \<longleftrightarrow> path_exists E fs' ?p \<and> 0 < n)"
    if sv: "image_save E fs ?p img (asc ''WEBP'') True 100 = (fs', None)"
      and sz: "path_exists E fs' ?p \<longrightarrow> path_getsize E fs' ?p = Inr n"
  proof -
    have a: "archivos_fs ?s = fs'"
      using ex op rd ne rm no dc sv sz
      by (simp add: procesar_imagen_def cuerpo_def Let_def nombre_salida_def)
    have r: "retorno ?s = (if path_exists E fs' ?p \<and> 0 < n then ?ok else ?ko)"
      using ex op rd ne rm no dc sv sz
      by (simp add: procesar_imagen_def cuerpo_def Let_def nombre_salida_def msg_defs)
    from a r d show ?thesis by (simp only: r) (simp add: c c [symmetric])
  qed
  have B: "archivos_fs ?s = fs'
      \<and> retorno ?s = CROSS # asc '' Error con '' @ filename @ asc '': '' @ str_e e @ NL
          # format_exc E 96 e"
    if sv: "image_save E fs ?p img (asc ''WEBP'') True 100 = (fs', Some e)"
    using ex op rd ne rm no dc sv
    by (simp add: procesar_imagen_def cuerpo_def Let_def nombre_salida_def msg_defs)
  have C: "archivos_fs ?s = fs'
      \<and> retorno ?s = CROSS # asc '' Error con '' @ filename @ asc '': '' @ str_e e @ NL
          # format_exc E 99 e"
    if sv: "image_save E fs ?p img (asc ''WEBP'') True 100 = (fs', None)"
      and pe: "path_exists E fs' ?p" and sz: "path_getsize E fs' ?p = Inl e"
    using ex op rd ne rm no dc sv pe sz
    by (simp add: procesar_imagen_def cuerpo_def Let_def nombre_salida_def msg_defs)
  have D: "py_in [CHECK] ?ok" by (simp add: py_in_single)
  have F: "py_in [CHECK] ?ko \<longleftrightarrow> CHECK \<in> set filename"
    using c by (simp add: py_in_single asc_sin_marca)
  from A B C D F show ?thesis by blast
qed

theorem C4_escritura_y_verificacion_witness:
  "retorno (procesar_imagen E_prueba fs_prueba
      (asc ''in'', asc ''in/imagenes_sin_fondo'', asc ''a.jpg''))
     = CHECK # asc '' Procesado exitosamente: a.jpg '' @ ARROW # asc '' a_sin_fondo.webp''
   \<and> archivos_fs (procesar_imagen E_prueba fs_prueba
      (asc ''in'', asc ''in/imagenes_sin_fondo'', asc ''a.jpg''))
     = (asc ''in/imagenes_sin_fondo/a_sin_fondo.webp'', [7, 7, 7]) # fs_prueba
   \<and> retorno (procesar_imagen E_prueba fs_salida_vacia (asc ''in'', asc ''out'', asc ''x.png''))
     = CROSS # asc '' Error al guardar: x.png''
   \<and> archivos_fs (procesar_imagen E_prueba fs_salida_vacia
        (asc ''in'', asc ''out'', asc ''x.png''))
     = (asc ''out/x_sin_fondo.webp'', []) # fs_salida_vacia
   \<and> retorno (procesar_imagen E_prueba fs_escritura (asc ''in'', asc ''out'', asc ''x.png''))
     = CROSS # asc '' Error con x.png: boom'' @ NL # traza 96 e_prueba
   \<and> archivos_fs (procesar_imagen E_prueba fs_escritura
        (asc ''in'', asc ''out'', asc ''x.png'')) = fs_escritura"
proof -
  have sa: "stem (asc ''a.jpg'') = asc ''a''" and sx: "stem (asc ''x.png'') = asc ''x''"
    by (simp_all add: stem_def path_name_def asc_def SEP_def DOT_def)
  have pa: "os_path_join (asc ''in/imagenes_sin_fondo'') (asc ''a'' @ asc ''_sin_fondo.webp'')
      = asc ''in/imagenes_sin_fondo/a_sin_fondo.webp''"
    and px: "os_path_join (asc ''out'') (asc ''x'' @ asc ''_sin_fondo.webp'')
      = asc ''out/x_sin_fondo.webp''"
    by (simp_all add: os_path_join_def asc_def SEP_def)
  have t: "CHECK # asc '' Procesado exitosamente: '' @ asc ''a.jpg'' @ asc '' ''
        @ ARROW # asc '' '' @ asc ''a'' @ asc ''_sin_fondo.webp''
      = CHECK # asc '' Procesado exitosamente: a.jpg '' @ ARROW # asc '' a_sin_fondo.webp''"
    "CROSS # asc '' Error al guardar: '' @ asc ''x.png'' = CROSS # asc '' Error al guardar: x.png''"
    "CROSS # asc '' Error con '' @ asc ''x.png'' @ asc '': '' @ str_e e_prueba @ NL
        # format_exc E_prueba 96 e_prueba
      = CROSS # asc '' Error con x.png: boom'' @ NL # traza 96 e_prueba"
    by (simp_all add: asc_def E_prueba_def e_prueba_def)
  have ne: "[7, 7, 7::nat] \<noteq> []" "[3, 3::nat] \<noteq> []" "[2, 2::nat] \<noteq> []" by simp_all
  have exa: "path_exists E_prueba fs_prueba (os_path_join (asc ''in'') (asc ''a.jpg''))"
    and opa: "open_rb E_prueba fs_prueba (os_path_join (asc ''in'') (asc ''a.jpg'')) = None"
    and rda: "read_bytes E_prueba fs_prueba (os_path_join (asc ''in'') (asc ''a.jpg''))
              = Inr [7, 7, 7]"
    by (simp_all add: prueba_defs)
  have rma: "remove E_prueba [7, 7, 7] = Inr [7, 7, 7]"
    and dca: "open_rgba E_prueba [7, 7, 7] = Inr [7, 7, 7]"
    by (simp_all add: E_prueba_def)
  have sva: "image_save E_prueba fs_prueba (asc ''in/imagenes_sin_fondo/a_sin_fondo.webp'')
              [7, 7, 7] (asc ''WEBP'') True 100
            = ((asc ''in/imagenes_sin_fondo/a_sin_fondo.webp'', [7, 7, 7]) # fs_prueba, None)"
    by (simp add: E_prueba_def)
  have pea: "path_exists E_prueba
              ((asc ''in/imagenes_sin_fondo/a_sin_fondo.webp'', [7, 7, 7]) # fs_prueba)
              (asc ''in/imagenes_sin_fondo/a_sin_fondo.webp'')"
    and sza: "path_getsize E_prueba
              ((asc ''in/imagenes_sin_fondo/a_sin_fondo.webp'', [7, 7, 7]) # fs_prueba)
              (asc ''in/imagenes_sin_fondo/a_sin_fondo.webp'') = Inr 3"
    by (simp_all add: E_prueba_def)
  note ca = C4_escritura_y_verificacion [OF exa opa rda ne(1) rma ne(1) dca,
      where output_folder = "asc ''in/imagenes_sin_fondo''"
        and fs' = "(asc ''in/imagenes_sin_fondo/a_sin_fondo.webp'', [7, 7, 7]) # fs_prueba"
        and n = 3, THEN conjunct1, unfolded sa pa, rule_format, OF conjI, OF sva impI, OF sza]
  have exv: "path_exists E_prueba fs_salida_vacia (os_path_join (asc ''in'') (asc ''x.png''))"
    and opv: "open_rb E_prueba fs_salida_vacia (os_path_join (asc ''in'') (asc ''x.png'')) = None"
    and rdv: "read_bytes E_prueba fs_salida_vacia (os_path_join (asc ''in'') (asc ''x.png''))
              = Inr [3, 3]"
    by (simp_all add: prueba_defs fs_salida_vacia_def)
  have rmv: "remove E_prueba [3, 3] = Inr [3, 3]"
    and dcv: "open_rgba E_prueba [3, 3] = Inr [3, 3]"
    by (simp_all add: E_prueba_def)
  have svv: "image_save E_prueba fs_salida_vacia (asc ''out/x_sin_fondo.webp'')
              [3, 3] (asc ''WEBP'') True 100
            = ((asc ''out/x_sin_fondo.webp'', []) # fs_salida_vacia, None)"
    by (simp add: E_prueba_def)
  have szv: "path_getsize E_prueba ((asc ''out/x_sin_fondo.webp'', []) # fs_salida_vacia)
              (asc ''out/x_sin_fondo.webp'') = Inr 0"
    by (simp add: E_prueba_def)
  note cv = C4_escritura_y_verificacion [OF exv opv rdv ne(2) rmv ne(2) dcv,
      where output_folder = "asc ''out''"
        and fs' = "(asc ''out/x_sin_fondo.webp'', []) # fs_salida_vacia"
        and n = 0, THEN conjunct1, unfolded sx px, rule_format, OF conjI, OF svv impI, OF szv]
  have exe: "path_exists E_prueba fs_escritura (os_path_join (asc ''in'') (asc ''x.png''))"
    and ope: "open_rb E_prueba fs_escritura (os_path_join (asc ''in'') (asc ''x.png'')) = None"
    and rde: "read_bytes E_prueba fs_escritura (os_path_join (asc ''in'') (asc ''x.png''))
              = Inr [2, 2]"
    by (simp_all add: prueba_defs fs_escritura_def)
  have rme: "remove E_prueba [2, 2] = Inr [2, 2]"
    and dce: "open_rgba E_prueba [2, 2] = Inr [2, 2]"
    by (simp_all add: E_prueba_def)
  have sve: "image_save E_prueba fs_escritura (asc ''out/x_sin_fondo.webp'')
              [2, 2] (asc ''WEBP'') True 100 = (fs_escritura, Some e_prueba)"
    by (simp add: E_prueba_def)
  note ce = C4_escritura_y_verificacion [OF exe ope rde ne(3) rme ne(3) dce,
      where output_folder = "asc ''out''" and fs' = fs_escritura and e = e_prueba,
      THEN conjunct2, THEN conjunct1, unfolded sx px, rule_format, OF sve]
  from ca cv ce pea show ?thesis
    by (simp add: t)
qed

section \<open>Success is read off the text\<close>



section \<open>Failures of decoding and of writing\<close>

text \<open>
  Claim C6, as stated, does not hold: \<open>procesar_imagen\<close> has one handler for the whole
  body and no error kinds. In the example the decoder raises for the first folder and
  \<open>save\<close> raises for the second: both calls return the cross mark,
  \<open>Error con x.png: boom\<close> and the trace. No reason is given; the two texts differ
  only inside the trace, which names line 87 for the decoder and line 96 for \<open>save\<close>.
\<close>

theorem C6_sin_clase_de_error_counterexample:
  "open_rgba E_prueba [1, 1] = Inl e_prueba
   \<and> retorno (procesar_imagen E_prueba fs_decodificacion (asc ''in'', asc ''out'', asc ''x.png''))
       = CROSS # asc '' Error con x.png: boom'' @ NL # traza 87 e_prueba
   \<and> open_rgba E_prueba [2, 2] = Inr [2, 2]
   \<and> image_save E_prueba fs_escritura (asc ''out/x_sin_fondo.webp'') [2, 2] (asc ''WEBP'') True 100
       = (fs_escritura, Some e_prueba)
   \<and> retorno (procesar_imagen E_prueba fs_escritura (asc ''in'', asc ''out'', asc ''x.png''))
       = CROSS # asc '' Error con x.png: boom'' @ NL # traza 96 e_prueba"
proof -
  have a: "open_rgba E_prueba [1, 1] = Inl e_prueba"
    and c: "open_rgba E_prueba [2, 2] = Inr [2, 2]"
    and d: "image_save E_prueba fs_escritura (asc ''out/x_sin_fondo.webp'') [2, 2]
        (asc ''WEBP'') True 100 = (fs_escritura, Some e_prueba)"
    by (simp_all add: E_prueba_def)
  have b: "retorno (procesar_imagen E_prueba fs_decodificacion
        (asc ''in'', asc ''out'', asc ''x.png''))
       = CROSS # asc '' Error con x.png: boom'' @ NL # traza 87 e_prueba"
    by (simp add: procesar_imagen_def cuerpo_def prueba_defs fs_decodificacion_def msg_defs
        Let_def)
  have e: "retorno (procesar_imagen E_prueba fs_escritura
        (asc ''in'', asc ''out'', asc ''x.png''))
       = CROSS # asc '' Error con x.png: boom'' @ NL # traza 96 e_prueba"
    by (simp add: procesar_imagen_def cuerpo_def prueba_defs fs_escritura_def msg_defs
        nombre_salida_def stem_def path_name_def Let_def)
  from a b c d e show ?thesis by (intro conjI)
qed

text \<open>
  Claim C6, amended. For a task whose segmentation has returned data, an exception \<open>e\<close>
  raised by the decoder and an exception \<open>e\<close> raised by \<open>save\<close> are both returned as
  a text of the same form: the cross mark, \<open>Error con\<close>, the file name, \<open>str(e)\<close> and,
  on a new line, the trace, which is that of line 87 for the decoder and that of line 96
  for \<open>save\<close>. After a failure of the decoder the file system is as it was; after a
  failure of \<open>save\<close> it is as \<open>save\<close> left it.
\<close>

theorem C6_error_generico:
  assumes ex: "path_exists E fs (os_path_join input_folder filename)"
    and op: "open_rb E fs (os_path_join input_folder filename) = None"
    and rd: "read_bytes E fs (os_path_join input_folder filename) = Inr in_bytes"
    and ne: "in_bytes \<noteq> []"
    and rm: "remove E in_bytes = Inr out_bytes"
    and no: "out_bytes \<noteq> []"
  shows "(open_rgba E out_bytes = Inl e \<longrightarrow>
            retorno (procesar_imagen E fs (input_folder, output_folder, filename))
              = CROSS # asc '' Error con '' @ filename @ asc '': '' @ str_e e @ NL
                  # format_exc E 87 e
          \<and> archivos_fs (procesar_imagen E fs (input_folder, output_folder, filename)) = fs)
       \<and> (open_rgba E out_bytes = Inr img
          \<and> image_save E fs
               (os_path_join output_folder (stem filename @ asc ''_sin_fondo.webp''))
               img (asc ''WEBP'') True 100 = (fs', Some e) \<longrightarrow>
            retorno (procesar_imagen E fs (input_folder, output_folder, filename))
              = CROSS # asc '' Error con '' @ filename @ asc '': '' @ str_e e @ NL
                  # format_exc E 96 e
          \<and> archivos_fs (procesar_imagen E fs (input_folder, output_folder, filename)) = fs')"
  using assms
  by (simp add: procesar_imagen_def cuerpo_def Let_def nombre_salida_def msg_defs)

theorem C6_error_generico_witness:
  "retorno (procesar_imagen E_prueba fs_decodificacion (asc ''in'', asc ''out'', asc ''x.png''))
     = CROSS # asc '' Error con x.png: boom'' @ NL # traza 87 e_prueba
   \<and> archivos_fs (procesar_imagen E_prueba fs_decodificacion
        (asc ''in'', asc ''out'', asc ''x.png'')) = fs_decodificacion
   \<and> retorno (procesar_imagen E_prueba fs_parcial (asc ''in'', asc ''out'', asc ''x.png''))
     = CROSS # asc '' Error con x.png: boom'' @ NL # traza 96 e_prueba
   \<and> archivos_fs (procesar_imagen E_prueba fs_parcial (asc ''in'', asc ''out'', asc ''x.png''))
     = (asc ''out/x_sin_fondo.webp'', [5, 5, 5]) # fs_parcial"
proof -
  have sx: "stem (asc ''x.png'') = asc ''x''"
    by (simp add: stem_def path_name_def asc_def SEP_def DOT_def)
  have px: "os_path_join (asc ''out'') (asc ''x'' @ asc ''_sin_fondo.webp'')
      = asc ''out/x_sin_fondo.webp''"
    by (simp add: os_path_join_def asc_def SEP_def)
  have t: "CROSS # asc '' Error con '' @ asc ''x.png'' @ asc '': '' @ str_e e_prueba @ NL
        # format_exc E_prueba l e_prueba
      = CROSS # asc '' Error con x.png: boom'' @ NL # traza l e_prueba" for l
    by (simp add: asc_def E_prueba_def e_prueba_def)
  have ne: "[1, 1::nat] \<noteq> []" "[5, 5, 5::nat] \<noteq> []" by simp_all
  have exd: "path_exists E_prueba fs_decodificacion (os_path_join (asc ''in'') (asc ''x.png''))"
    and opd: "open_rb E_prueba fs_decodificacion (os_path_join (asc ''in'') (asc ''x.png''))
              = None"
    and rdd: "read_bytes E_prueba fs_decodificacion (os_path_join (asc ''in'') (asc ''x.png''))
              = Inr [1, 1]"
    by (simp_all add: prueba_defs fs_decodificacion_def)
  have rmd: "remove E_prueba [1, 1] = Inr [1, 1]"
    and dcd: "open_rgba E_prueba [1, 1] = Inl e_prueba"
    by (simp_all add: E_prueba_def)
  note cd = C6_error_generico [OF exd opd rdd ne(1) rmd ne(1),
      where output_folder = "asc ''out''" and e = e_prueba,
      THEN conjunct1, rule_format, OF dcd]
  have exp: "path_exists E_prueba fs_parcial (os_path_join (asc ''in'') (asc ''x.png''))"
    and opp: "open_rb E_prueba fs_parcial (os_path_join (asc ''in'') (asc ''x.png'')) = None"
    and rdp: "read_bytes E_prueba fs_parcial (os_path_join (asc ''in'') (asc ''x.png''))
              = Inr [5, 5, 5]"
    by (simp_all add: prueba_defs fs_parcial_def)
  have rmp: "remove E_prueba [5, 5, 5] = Inr [5, 5, 5]"
    and dcp: "open_rgba E_prueba [5, 5, 5] = Inr [5, 5, 5]"
    by (simp_all add: E_prueba_def)
  have svp: "image_save E_prueba fs_parcial (asc ''out/x_sin_fondo.webp'')
              [5, 5, 5] (asc ''WEBP'') True 100
            = ((asc ''out/x_sin_fondo.webp'', [5, 5, 5]) # fs_parcial, Some e_prueba)"
    by (simp add: E_prueba_def)
  note cp = C6_error_generico [OF exp opp rdp ne(2) rmp ne(2),
      where output_folder = "asc ''out''" and e = e_prueba and img = "[5, 5, 5]"
        and fs' = "(asc ''out/x_sin_fondo.webp'', [5, 5, 5]) # fs_parcial",
      THEN conjunct2, unfolded sx px, rule_format, OF conjI, OF dcp svp]
  from cd cp show ?thesis
    by (simp add: t)
qed

section \<open>The extension filter\<close>

text \<open>
  Claim C8, as stated, does not hold: the extension is lowered before it is looked up in
  \<open>VALID_EXTENSIONS\<close>. The name \<open>A.JPG\<close> is selected although its extension, as the
  directory gives it, is not in the tuple.
\<close>

theorem C8_counterexample_mayusculas:
  "es_valido (asc ''A.JPG'') \<and> snd (splitext (asc ''A.JPG'')) \<notin> set VALID_EXTENSIONS
   \<and> buscar_archivos E_prueba [(asc ''in/A.JPG'', [7])] (asc ''in'') = [asc ''A.JPG'']"
  by (simp add: buscar_archivos_def es_valido_def splitext_def lower_def lower_cp_def
      VALID_EXTENSIONS_def prueba_defs)

text \<open>
  Claim C8, amended. The filter compares the extension \<open>os.path.splitext\<close> gives,
  lowered, with the fixed tuple, so it does not distinguish the case of letters: two names
  that are equal after lowering are both selected or both rejected. For a name without a
  slash, with something other than dots before its last dot, the extension is the part
  from that dot on, and the name is selected exactly when that part, lowered, is one of
  \<open>.jpg .jpeg .png .webp .bmp .tiff\<close>; a name without a dot is rejected. The selected
  names are the enumerated names themselves, unchanged and in the order of the
  enumeration.
\<close>

theorem C8_filtro_sin_distinguir_caja:
  "(lower f = lower g \<longrightarrow> es_valido f = es_valido g)
   \<and> (SEP \<notin> set base \<and> (\<exists>c \<in> set base. c \<noteq> DOT) \<and> SEP \<notin> set suf \<and> DOT \<notin> set suf \<longrightarrow>
        (es_valido (base @ DOT # suf) \<longleftrightarrow>
           lower (DOT # suf) \<in> {asc ''.jpg'', asc ''.jpeg'', asc ''.png'', asc ''.webp'',
                                 asc ''.bmp'', asc ''.tiff''}))
   \<and> (DOT \<notin> set h \<longrightarrow> \<not> es_valido h)
   \<and> buscar_archivos E fs input_folder
       = filter (\<lambda>nm. lower (snd (splitext nm)) \<in> {asc ''.jpg'', asc ''.jpeg'', asc ''.png'',
                                                    asc ''.webp'', asc ''.bmp'', asc ''.tiff''})
           (listdir E fs input_folder)"
proof -
  have "es_valido x = (snd (splitext (lower x)) \<in> set VALID_EXTENSIONS)" for x
    by (simp add: es_valido_def splitext_lower)
  then have a: "lower f = lower g \<longrightarrow> es_valido f = es_valido g" by simp
  have b: "es_valido (base @ DOT # suf) \<longleftrightarrow>
           lower (DOT # suf) \<in> {asc ''.jpg'', asc ''.jpeg'', asc ''.png'', asc ''.webp'',
                                 asc ''.bmp'', asc ''.tiff''}"
    if "SEP \<notin> set base" "\<exists>c \<in> set base. c \<noteq> DOT" "SEP \<notin> set suf" "DOT \<notin> set suf"
    by (simp add: es_valido_def splitext_nombre [OF that] VALID_EXTENSIONS_def)
  have c: "\<not> es_valido h" if "DOT \<notin> set h"
  proof -
    from that have "rfind h DOT = None" by (simp add: rfind_None)
    then have "splitext h = (h, [])" by (simp add: splitext_def)
    then show ?thesis
      by (simp add: es_valido_def VALID_EXTENSIONS_def lower_def asc_def)
  qed
  have d: "buscar_archivos E fs input_folder
       = filter (\<lambda>nm. lower (snd (splitext nm)) \<in> {asc ''.jpg'', asc ''.jpeg'', asc ''.png'',
                                                    asc ''.webp'', asc ''.bmp'', asc ''.tiff''})
           (listdir E fs input_folder)"
    by (simp add: buscar_archivos_def es_valido_def [abs_def] VALID_EXTENSIONS_def)
  from a b c d show ?thesis by blast
qed

theorem C8_filtro_sin_distinguir_caja_witness:
  "lower (asc ''A.JPG'') = lower (asc ''a.jpg'')
   \<and> es_valido (asc ''A.JPG'') \<and> es_valido (asc ''a.jpg'')
   \<and> \<not> es_valido (asc ''b.txt'') \<and> \<not> es_valido (asc ''LEEME'')
   \<and> buscar_archivos E_prueba [(asc ''in/A.JPG'', [7]), (asc ''in/b.txt'', [7])] (asc ''in'')
       = [asc ''A.JPG'']"
proof -
  have h: "lower (asc ''A.JPG'') = lower (asc ''a.jpg'')"
    by (simp add: lower_def lower_cp_def asc_def)
  have n: "asc ''A'' @ DOT # asc ''JPG'' = asc ''A.JPG''"
    "asc ''b'' @ DOT # asc ''txt'' = asc ''b.txt''"
    by (simp_all add: asc_def DOT_def)
  have p: "SEP \<notin> set (asc ''A'') \<and> (\<exists>c \<in> set (asc ''A''). c \<noteq> DOT)
        \<and> SEP \<notin> set (asc ''JPG'') \<and> DOT \<notin> set (asc ''JPG'')"
    "SEP \<notin> set (asc ''b'') \<and> (\<exists>c \<in> set (asc ''b''). c \<noteq> DOT)
        \<and> SEP \<notin> set (asc ''txt'') \<and> DOT \<notin> set (asc ''txt'')"
    "DOT \<notin> set (asc ''LEEME'')"
    by (simp_all add: asc_def SEP_def DOT_def)
  have l: "lower (DOT # asc ''JPG'') = asc ''.jpg''" "lower (DOT # asc ''txt'') = asc ''.txt''"
    by (simp_all add: lower_def lower_cp_def asc_def DOT_def)
  have q: "asc ''.txt'' \<notin> {asc ''.jpg'', asc ''.jpeg'', asc ''.png'', asc ''.webp'',
        asc ''.bmp'', asc ''.tiff''}"
    by (simp add: asc_def)
  note c = C8_filtro_sin_distinguir_caja [where f = "asc ''A.JPG''" and g = "asc ''a.jpg''"
      and base = "asc ''A''" and suf = "asc ''JPG''" and h = "asc ''LEEME''"
      and E = E_prueba and fs = "[(asc ''in/A.JPG'', [7]), (asc ''in/b.txt'', [7])]"
      and input_folder = "asc ''in''"]
  note c' = C8_filtro_sin_distinguir_caja [where f = "asc ''A.JPG''" and g = "asc ''a.jpg''"
      and base = "asc ''b''" and suf = "asc ''txt''" and h = "asc ''LEEME''"
      and E = E_prueba and fs = "[(asc ''in/A.JPG'', [7]), (asc ''in/b.txt'', [7])]"
      and input_folder = "asc ''in''"]
  note c1 = c [THEN conjunct1, rule_format, OF h]
  note c2 = c [THEN conjunct2, THEN conjunct1, rule_format, OF p(1), unfolded n l]
  note c3 = c [THEN conjunct2, THEN conjunct2, THEN conjunct1, rule_format, OF p(3)]
  note c4 = c' [THEN conjunct2, THEN conjunct1, rule_format, OF p(2), unfolded n l]
  from c2 have v1: "es_valido (asc ''A.JPG'')" by simp
  with c1 have v2: "es_valido (asc ''a.jpg'')" by simp
  from c4 q have w: "\<not> es_valido (asc ''b.txt'')" by simp
  note v = v1 v2 c3
  have ls: "listdir E_prueba [(asc ''in/A.JPG'', [7]), (asc ''in/b.txt'', [7])] (asc ''in'')
      = [asc ''A.JPG'', asc ''b.txt'']"
    by (simp add: E_prueba_def listar_def asc_def SEP_def)
  have b: "buscar_archivos E_prueba [(asc ''in/A.JPG'', [7]), (asc ''in/b.txt'', [7])] (asc ''in'')
       = [asc ''A.JPG'']"
    using v w by (simp add: buscar_archivos_def ls)
  from h v w b show ?thesis by simp
qed

section \<open>The order of the results of the pool\<close>

text \<open>
  Claim C7, as stated, does not hold: \<open>executor.map\<close> hands the results over in the
  order of submission. In the example two workers finish the empty \<open>c.png\<close> before
  \<open>a.jpg\<close>, a schedule two workers can produce; the loop still receives the result of
  \<open>a.jpg\<close> first, and the line \<open>[1/2]\<close> is that of \<open>a.jpg\<close>.
\<close>

theorem C7_orden_de_terminacion_counterexample:
  "plan_posible (max_workers [a_jpg, c_png]) [1, 0]
   \<and> fst (snd (trabajadores E_prueba [(dir_in, dir_out, a_jpg), (dir_in, dir_out, c_png)]
        [1, 0] (fs_prueba, [], [])))
     = [(1, msg_sin_datos c_png), (0, msg_exito a_jpg (asc ''a_sin_fondo.webp''))]
   \<and> drop 6 (consola (lote E_prueba dir_in dir_out [a_jpg, c_png]
        \<lparr>completados = [1, 0], fallo = e_pool\<rparr> fs_prueba []))
     = [msg_progreso 1 2 (msg_exito a_jpg (asc ''a_sin_fondo.webp'')),
        msg_progreso 2 2 (msg_sin_datos c_png)]"
proof -
  have p: "plan_posible (max_workers [a_jpg, c_png]) [1, 0]"
    by (simp add: plan_posible_def max_workers_def less_Suc_eq)
  have h: "fst (snd (trabajadores E_prueba [(dir_in, dir_out, a_jpg), (dir_in, dir_out, c_png)]
        [1, 0] (fs_prueba, [], [])))
     = [(1, msg_sin_datos c_png), (0, msg_exito a_jpg (asc ''a_sin_fondo.webp''))]"
    by (simp add: eval_prueba)
  have c: "drop 6 (consola (lote E_prueba dir_in dir_out [a_jpg, c_png]
        \<lparr>completados = [1, 0], fallo = e_pool\<rparr> fs_prueba []))
     = [msg_progreso 1 2 (msg_exito a_jpg (asc ''a_sin_fondo.webp'')),
        msg_progreso 2 2 (msg_sin_datos c_png)]"
    by (simp add: lote_def eval_prueba)
  from p h c show ?thesis by (intro conjI)
qed

text \<open>
  Claim C7, amended. When the pool does not break, the results reach the loop in the order
  of submission, whatever the order of completion: the \<open>i\<close>-th result is what
  \<open>procesar_imagen\<close> returned for the \<open>i\<close>-th file of the list, and the progress line
  with index \<open>i\<close> carries it.
\<close>

theorem C7_orden_de_envio:
  assumes run: "trabajadores E (map (\<lambda>f. (input_folder, output_folder, f)) archivos)
                  (completados P) (fs0, [], out0) = (fs1, hechos, out1)"
    and todos: "\<forall>i < length archivos. i \<in> set (completados P)"
  shows "entregados hechos (length archivos)
           = map (\<lambda>i. the (map_of hechos i)) [0..<length archivos]
       \<and> (\<forall>i < length archivos. \<exists>fsk. map_of hechos i
             = Some (retorno (procesar_imagen E fsk (input_folder, output_folder, archivos ! i))))
       \<and> consola (lote E input_folder output_folder archivos P fs0 out0)
           = out1 @ map (\<lambda>i. msg_progreso (Suc i) (length archivos) (the (map_of hechos i)))
                      [0..<length archivos]"
proof -
  let ?n = "length archivos"
  let ?tareas = "map (\<lambda>f. (input_folder, output_folder, f)) archivos"
  have dom: "fst ` set hechos = {k \<in> set (completados P). k < ?n}"
    using trabajadores_dom [OF run] by simp
  then have all: "\<forall>i < ?n. i \<in> fst ` set hechos"
    using todos by auto
  have e: "entregados hechos ?n = map (\<lambda>i. the (map_of hechos i)) [0..<?n]"
    by (rule entregados_completo [OF all])
  have orig: "\<forall>(k, r) \<in> set hechos. k < length ?tareas
        \<and> (\<exists>fsk. r = retorno (procesar_imagen E fsk (?tareas ! k)))"
    by (rule trabajadores_origen [OF run]) simp
  have r: "\<forall>i < ?n. \<exists>fsk. map_of hechos i
             = Some (retorno (procesar_imagen E fsk (input_folder, output_folder, archivos ! i)))"
  proof (intro allI impI)
    fix i assume i: "i < ?n"
    with all have "map_of hechos i \<noteq> None"
      by (simp add: map_of_eq_None_iff)
    then obtain r where m: "map_of hechos i = Some r"
      by blast
    then have "(i, r) \<in> set hechos" by (rule map_of_SomeD)
    with orig i obtain fsk where "r = retorno (procesar_imagen E fsk (?tareas ! i))"
      by auto
    with m i show "\<exists>fsk. map_of hechos i
             = Some (retorno (procesar_imagen E fsk (input_folder, output_folder, archivos ! i)))"
      by auto
  qed
  have c: "consola (lote E input_folder output_folder archivos P fs0 out0)
           = out1 @ map (\<lambda>i. msg_progreso (Suc i) ?n (the (map_of hechos i))) [0..<?n]"
    by (simp add: lote_def run e bucle_pool_consola Let_def cong: map_cong)
  from e r c show ?thesis by simp
qed

theorem C7_orden_de_envio_witness:
  "0 \<in> set [1, 0::nat] \<and> 1 \<in> set [1, 0::nat]
   \<and> consola (lote E_prueba dir_in dir_out [a_jpg, c_png]
        \<lparr>completados = [1, 0], fallo = e_pool\<rparr> fs_prueba [])
     = [msg_procesando c_png, msg_procesando a_jpg, msg_leyendo 3 a_jpg, msg_removiendo a_jpg,
        msg_removido a_jpg 3, msg_guardando a_webp,
        msg_progreso 1 2 (msg_exito a_jpg (asc ''a_sin_fondo.webp'')),
        msg_progreso 2 2 (msg_sin_datos c_png)]"
proof -
  have run: "trabajadores E_prueba (map (\<lambda>f. (dir_in, dir_out, f)) [a_jpg, c_png])
      (completados \<lparr>completados = [1, 0], fallo = e_pool\<rparr>) (fs_prueba, [], [])
    = ((a_webp, [7, 7, 7]) # fs_prueba,
       [(1, msg_sin_datos c_png), (0, msg_exito a_jpg (asc ''a_sin_fondo.webp''))],
       [msg_procesando c_png, msg_procesando a_jpg, msg_leyendo 3 a_jpg, msg_removiendo a_jpg,
        msg_removido a_jpg 3, msg_guardando a_webp])"
    by (simp add: eval_prueba)
  have todos: "\<forall>i < length [a_jpg, c_png].
      i \<in> set (completados \<lparr>completados = [1, 0], fallo = e_pool\<rparr>)"
    by (simp add: less_Suc_eq)
  show ?thesis
    using C7_orden_de_envio [OF run todos] todos
    by (simp add: upt_rec numeral_2_eq_2 numeral_3_eq_3)
qed

section \<open>A pool that breaks after some results\<close>

text \<open>
  Claim C1 says that every task is counted exactly once, so that the two counters add up
  to the number of tasks. The handler of line 187 does not reset the counters before the
  sequential loop runs over all files. In the folder of the example the pool hands over
  the result of \<open>a.jpg\<close> and then breaks: two files were found, and the counters end at
  two successes and one error.
\<close>

theorem C1_doble_conteo:
  "buscar_archivos E_prueba fs_prueba dir_in = [a_jpg, c_png]
   \<and> map_option (\<lambda>st. (resultados_exitosos st, resultados_con_error st))
       (principal E_prueba fs_prueba dir_in \<lparr>completados = [0], fallo = e_pool\<rparr>)
     = Some (2, 1)"
proof -
  have d: "os_path_join dir_in (asc ''imagenes_sin_fondo'') = dir_out"
    by (simp add: os_path_join_def dir_in_def dir_out_def asc_def SEP_def)
  show ?thesis
    by (simp add: principal_def buscar_prueba d lote_def eval_prueba)
qed

text \<open>
  Claim C3 says that after a failure of the pool the final counts are those of a purely
  sequential run. For the same run as above the sequential loop alone gives one success
  and one error, the batch two successes and one error: the result the pool had already
  handed over is counted again.
\<close>

theorem C3_respaldo_y_linea_base:
  "(resultados_exitosos (lote E_prueba dir_in dir_out [a_jpg, c_png]
        \<lparr>completados = [0], fallo = e_pool\<rparr> fs_prueba []),
    resultados_con_error (lote E_prueba dir_in dir_out [a_jpg, c_png]
        \<lparr>completados = [0], fallo = e_pool\<rparr> fs_prueba [])) = (2, 1)
   \<and> (resultados_exitosos (solo_secuencial E_prueba dir_in dir_out [a_jpg, c_png] fs_prueba []),
      resultados_con_error (solo_secuencial E_prueba dir_in dir_out [a_jpg, c_png] fs_prueba []))
     = (1, 1)"
  by (simp add: lote_def solo_secuencial_def eval_prueba)

section \<open>Idempotence\<close>




end
